theory Spec2Isabelle
  imports Complex_Main "HOL-Library.Sublist" "HOL-Library.AList"
begin

section \<open>Strings, character classes and the regular expressions of the chunker\<close>

text \<open>
  Python strings are modelled as \<open>string\<close>, one \<open>char\<close> per code point, so the
  model covers texts whose code points are below 256.  On that range Python's \<open>\s\<close>
  and \<open>str.strip()\<close> agree on the twelve characters below, \<open>\d\<close> is \<open>0-9\<close>, and the
  bullet U+2022 of the first list pattern cannot occur.
\<close>

definition NL :: char where
  "NL = CHR 0x0A"

definition is_space :: "char \<Rightarrow> bool" where
  "is_space c \<longleftrightarrow> c \<in> set [CHR 0x09, CHR 0x0A, CHR 0x0B, CHR 0x0C, CHR 0x0D,
     CHR 0x1C, CHR 0x1D, CHR 0x1E, CHR 0x1F, CHR 0x20, CHR 0x85, CHR 0xA0]"

definition is_digit :: "char \<Rightarrow> bool" where
  "is_digit c \<longleftrightarrow> c \<in> set ''0123456789''"

definition is_upper :: "char \<Rightarrow> bool" where
  "is_upper c \<longleftrightarrow> c \<in> set ''ABCDEFGHIJKLMNOPQRSTUVWXYZ''"

definition is_lower :: "char \<Rightarrow> bool" where
  "is_lower c \<longleftrightarrow> c \<in> set ''abcdefghijklmnopqrstuvwxyz''"

definition is_punct :: "char \<Rightarrow> bool" where
  \<comment> \<open>the class \<open>[.!?]\<close>\<close>
  "is_punct c \<longleftrightarrow> c \<in> set ''.!?''"

definition strip :: "string \<Rightarrow> string" where
  \<comment> \<open>\<open>str.strip()\<close>\<close>
  "strip s = rev (dropWhile is_space (rev (dropWhile is_space s)))"

fun count_words :: "bool \<Rightarrow> string \<Rightarrow> nat" where
  \<comment> \<open>\<open>len(s.split())\<close>; the flag says that the previous character belongs to a word\<close>
  "count_words inw [] = 0"
| "count_words inw (c # cs) =
     (if is_space c then count_words False cs
      else (if inw then 0 else 1) + count_words True cs)"

definition py_slice_from :: "int \<Rightarrow> 'a list \<Rightarrow> 'a list" where
  \<comment> \<open>\<open>xs[k:]\<close>: a negative start counts from the end and is clipped at 0\<close>
  "py_slice_from k xs =
     drop (nat (if k < 0 then max 0 (int (length xs) + k) else k)) xs"

definition py_slice_to :: "int \<Rightarrow> 'a list \<Rightarrow> 'a list" where
  \<comment> \<open>\<open>xs[:k]\<close>\<close>
  "py_slice_to k xs =
     take (nat (if k < 0 then max 0 (int (length xs) + k) else k)) xs"

subsection \<open>Anchored matching\<close>

text \<open>
  A pattern anchored at the start of a string returns the rest of the string after the
  match, or \<open>None\<close>.  \<open>rx_plus\<close> and \<open>rx_star\<close> take the longest run; in every pattern
  of the chunker the item that follows a repetition cannot start with a character of
  the repeated class, so Python's backtracking never settles on a shorter run.
\<close>

definition rx_plus :: "(char \<Rightarrow> bool) \<Rightarrow> string \<Rightarrow> string option" where
  "rx_plus P s = (if takeWhile P s = [] then None else Some (dropWhile P s))"

definition rx_star :: "(char \<Rightarrow> bool) \<Rightarrow> string \<Rightarrow> string option" where
  "rx_star P s = Some (dropWhile P s)"

definition rx_one :: "(char \<Rightarrow> bool) \<Rightarrow> string \<Rightarrow> string option" where
  "rx_one P s = (case s of [] \<Rightarrow> None | c # cs \<Rightarrow> if P c then Some cs else None)"

definition rx_lit :: "string \<Rightarrow> string \<Rightarrow> string option" where
  "rx_lit l s = (if prefix l s then Some (drop (length l) s) else None)"

definition rx_then :: "string option \<Rightarrow> (string \<Rightarrow> string option) \<Rightarrow> string option" where
  "rx_then m f = (case m of None \<Rightarrow> None | Some r \<Rightarrow> f r)"

definition rx_ws_run :: "string \<Rightarrow> string option" where
  \<comment> \<open>\<open>\s+\<close>\<close>
  "rx_ws_run s = rx_plus is_space s"

definition after_last_newline :: "string \<Rightarrow> nat" where
  \<comment> \<open>the offset just behind the last newline of a run that contains one\<close>
  "after_last_newline w = length w - length (takeWhile (\<lambda>c. c \<noteq> NL) (rev w))"

definition rx_blank_line :: "string \<Rightarrow> string option" where
  \<comment> \<open>\<open>\n\s*\n\<close>: a newline, then the whitespace run up to its last newline\<close>
  "rx_blank_line s =
     rx_then (rx_one (\<lambda>c. c = NL) s)
       (\<lambda>r. let w = takeWhile is_space r
            in if NL \<in> set w then Some (drop (after_last_newline w) r) else None)"

definition rx_page_number :: "string \<Rightarrow> string option" where
  \<comment> \<open>\<open>\d+\s*$\<close> under MULTILINE: the whitespace run reaches the end of the text, or
      it is cut just before its last newline\<close>
  "rx_page_number s =
     rx_then (rx_plus is_digit s)
       (\<lambda>r. let w = takeWhile is_space r
            in if dropWhile is_space r = [] then Some []
               else if NL \<in> set w then Some (drop (after_last_newline w - 1) r)
               else None)"

definition rx_dots :: "string \<Rightarrow> string option" where
  \<comment> \<open>\<open>[.]{3,}\<close>\<close>
  "rx_dots s =
     (if 3 \<le> length (takeWhile (\<lambda>c. c = CHR ''.'') s)
      then Some (dropWhile (\<lambda>c. c = CHR ''.'') s) else None)"

definition rx_sentence_end :: "string \<Rightarrow> string option" where
  \<comment> \<open>\<open>[.!?]+\s+\<close>\<close>
  "rx_sentence_end s = rx_then (rx_plus is_punct s) (rx_plus is_space)"

definition rx_boundary :: "string \<Rightarrow> string option" where
  \<comment> \<open>\<open>[.!?]\s+\<close>\<close>
  "rx_boundary s = rx_then (rx_one is_punct s) (rx_plus is_space)"

subsection \<open>Scanning: \<open>re.sub\<close>, \<open>re.split\<close>, \<open>re.search\<close>\<close>

text \<open>
  The scanners try the pattern at each position from the left and resume behind a
  match.  All patterns used here consume at least one character; the length test
  keeps the recursion well-founded for an arbitrary matcher.
\<close>

fun re_sub :: "(string \<Rightarrow> string option) \<Rightarrow> string \<Rightarrow> string \<Rightarrow> string" where
  "re_sub rx repl [] = []"
| "re_sub rx repl (c # cs) =
     (case rx (c # cs) of
        Some r \<Rightarrow> if length r \<le> length cs then repl @ re_sub rx repl r
                  else c # re_sub rx repl cs
      | None \<Rightarrow> c # re_sub rx repl cs)"

definition extend_piece :: "char \<Rightarrow> string list \<Rightarrow> string list" where
  \<comment> \<open>a character that starts no match joins the piece that is being read\<close>
  "extend_piece c ps = (case ps of [] \<Rightarrow> [[c]] | piece # pieces \<Rightarrow> (c # piece) # pieces)"

fun re_split :: "(string \<Rightarrow> string option) \<Rightarrow> string \<Rightarrow> string list" where
  "re_split rx [] = [[]]"
| "re_split rx (c # cs) =
     (case rx (c # cs) of
        Some r \<Rightarrow> if length r \<le> length cs then [] # re_split rx r
                  else extend_piece c (re_split rx cs)
      | None \<Rightarrow> extend_piece c (re_split rx cs))"

fun re_search_end :: "(string \<Rightarrow> string option) \<Rightarrow> string \<Rightarrow> nat option" where
  \<comment> \<open>\<open>re.search(p, s).end()\<close>, or \<open>None\<close> when nothing matches\<close>
  "re_search_end rx [] = None"
| "re_search_end rx (c # cs) =
     (case rx (c # cs) of
        Some r \<Rightarrow> Some (length (c # cs) - length r)
      | None \<Rightarrow> map_option Suc (re_search_end rx cs))"

fun sub_page_numbers :: "bool \<Rightarrow> string \<Rightarrow> string" where
  \<comment> \<open>\<open>re.sub(r'^\d+\s*$', '', s, flags=re.MULTILINE)\<close>; the flag says that the
      position is the start of the text or follows a newline\<close>
  "sub_page_numbers bol [] = []"
| "sub_page_numbers bol (c # cs) =
     (case (if bol then rx_page_number (c # cs) else None) of
        Some r \<Rightarrow>
          if length r \<le> length cs
          then sub_page_numbers (last (take (length (c # cs) - length r) (c # cs)) = NL) r
          else c # sub_page_numbers (c = NL) cs
      | None \<Rightarrow> c # sub_page_numbers (c = NL) cs)"

section \<open>The text chunker (\<open>app/services/text_chunker.py\<close>)\<close>

datatype py_exception =
    TypeError string
  | NameError string
  | ValueError string
  | Exception string

fun str_of_exception :: "py_exception \<Rightarrow> string" where
  \<comment> \<open>\<open>str(e)\<close>\<close>
  "str_of_exception (TypeError m) = m"
| "str_of_exception (NameError m) = m"
| "str_of_exception (ValueError m) = m"
| "str_of_exception (Exception m) = m"

datatype ChunkType = TITLE | PARAGRAPH | LIST_ITEM | QUOTE | FOOTNOTE

fun ChunkType_value :: "ChunkType \<Rightarrow> string" where
  "ChunkType_value TITLE = ''title''"
| "ChunkType_value PARAGRAPH = ''paragraph''"
| "ChunkType_value LIST_ITEM = ''list_item''"
| "ChunkType_value QUOTE = ''quote''"
| "ChunkType_value FOOTNOTE = ''footnote''"

datatype py_value =
    PyInt int | PyStr string | PyNone | PyList "py_value list"
  | PyDict "(string \<times> py_value) list"

type_synonym py_dict = "(string \<times> py_value) list"

fun dict_update :: "py_dict \<Rightarrow> py_dict \<Rightarrow> py_dict" where
  \<comment> \<open>\<open>d.update(new)\<close>\<close>
  "dict_update d [] = d"
| "dict_update d ((k, v) # kvs) = dict_update (AList.update k v d) kvs"

record TextChunk =
  text_c :: string
  chunk_type :: ChunkType
  start_pos :: int
  end_pos :: int
  metadata :: py_dict

definition new_TextChunk ::
  "string \<Rightarrow> ChunkType \<Rightarrow> int \<Rightarrow> int \<Rightarrow> py_dict \<Rightarrow> TextChunk" where
  \<comment> \<open>the dataclass constructor followed by \<open>__post_init__\<close>\<close>
  "new_TextChunk t ty s e md =
     \<lparr>text_c = t, chunk_type = ty, start_pos = s, end_pos = e,
      metadata = dict_update md
        [(''word_count'', PyInt (int (count_words False t))),
         (''char_count'', PyInt (int (length t))),
         (''chunk_type'', PyStr (ChunkType_value ty))]\<rparr>"

record TextChunker =
  chunk_size :: int
  overlap_size :: int
  min_chunk_size :: int
  max_chunk_size :: int

definition text_chunker :: TextChunker where
  \<comment> \<open>the singleton instance, built with the constructor's defaults\<close>
  "text_chunker =
     \<lparr>chunk_size = 1000, overlap_size = 200, min_chunk_size = 100, max_chunk_size = 2000\<rparr>"

definition preprocess_text :: "string \<Rightarrow> string" where
  "preprocess_text t0 =
     (let t1 = re_sub rx_ws_run '' '' t0;
          t2 = re_sub rx_blank_line [NL, NL] t1;
          t3 = sub_page_numbers True t2;
          t4 = re_sub rx_dots ''...'' t3
      in strip t4)"

definition split_into_paragraphs :: "string \<Rightarrow> string list" where
  "split_into_paragraphs t =
     filter (\<lambda>para. para \<noteq> [] \<and> 20 < length para) (map strip (re_split rx_blank_line t))"

subsection \<open>Classification\<close>

text \<open>
  \<open>re.match\<close> anchors at the start.  Without MULTILINE a final \<open>$\<close> holds at the end
  of the string or just before a newline that ends it.
\<close>

definition at_end :: "string \<Rightarrow> bool" where
  "at_end r \<longleftrightarrow> r = [] \<or> r = [NL]"

definition title_all_caps :: "string \<Rightarrow> bool" where
  \<comment> \<open>\<open>^[A-Z][A-Z\s]+$\<close>: the class contains the newline, so the run must
      reach the end\<close>
  "title_all_caps s =
     (case rx_then (rx_one is_upper s) (rx_plus (\<lambda>c. is_upper c \<or> is_space c)) of
        Some r \<Rightarrow> r = [] | None \<Rightarrow> False)"

definition title_numbered :: "string \<Rightarrow> bool" where
  \<comment> \<open>\<open>^\d+\.\s+[A-Z]\<close>\<close>
  "title_numbered s =
     (rx_then (rx_then (rx_then (rx_plus is_digit s) (rx_one (\<lambda>c. c = CHR ''.'')))
        (rx_plus is_space)) (rx_one is_upper) \<noteq> None)"

definition rx_cap_word :: "string \<Rightarrow> string option" where
  \<comment> \<open>\<open>[A-Z][a-z]+\<close>\<close>
  "rx_cap_word s = rx_then (rx_one is_upper s) (rx_plus is_lower)"

function title_case_rest :: "string \<Rightarrow> bool" where
  \<comment> \<open>\<open>(?:\s+[A-Z][a-z]+)*$\<close>\<close>
  "title_case_rest r =
     (if at_end r then True
      else (case rx_then (rx_plus is_space r) rx_cap_word of
              Some r' \<Rightarrow> if length r' < length r then title_case_rest r' else False
            | None \<Rightarrow> False))"
  by pat_completeness auto
termination
  by (relation "measure length") auto

definition title_case :: "string \<Rightarrow> bool" where
  \<comment> \<open>\<open>^[A-Z][a-z]+(?:\s+[A-Z][a-z]+)*$\<close>\<close>
  "title_case s = (case rx_cap_word s of Some r \<Rightarrow> title_case_rest r | None \<Rightarrow> False)"

definition heading_keyword :: "string list \<Rightarrow> string \<Rightarrow> bool" where
  \<comment> \<open>\<open>^(?:k1|k2|k3)\s+\d+\<close>, alternatives tried in order\<close>
  "heading_keyword ks s =
     list_ex (\<lambda>k. rx_then (rx_then (rx_lit k s) (rx_plus is_space)) (rx_one is_digit) \<noteq> None) ks"

definition title_patterns :: "(string \<Rightarrow> bool) list" where
  "title_patterns =
     [title_all_caps, title_numbered, title_case,
      heading_keyword [''Capitolo'', ''Sezione'', ''Parte''],
      heading_keyword [''Chapter'', ''Section'', ''Part'']]"

definition list_marker :: "(string \<Rightarrow> string option) \<Rightarrow> string \<Rightarrow> bool" where
  \<comment> \<open>\<open>^\s*\<close> marker \<open>\s+\<close>\<close>
  "list_marker marker s =
     (rx_then (rx_then (rx_star is_space s) marker) (rx_plus is_space) \<noteq> None)"

definition list_patterns :: "(string \<Rightarrow> bool) list" where
  "list_patterns =
     [list_marker (rx_one (\<lambda>c. c = CHR ''-'' \<or> c = CHR ''*'')),
      list_marker (\<lambda>s. rx_then (rx_plus is_digit s) (rx_one (\<lambda>c. c = CHR ''.''))),
      list_marker (\<lambda>s. rx_then (rx_one is_lower s) (rx_one (\<lambda>c. c = CHR '')''))),
      list_marker (\<lambda>s. rx_then (rx_plus (\<lambda>c. c \<in> set ''IVX'') s) (rx_one (\<lambda>c. c = CHR ''.'')))]"

definition quoted :: "char \<Rightarrow> char \<Rightarrow> string \<Rightarrow> bool" where
  \<comment> \<open>\<open>^l.*r$\<close>: the dot does not match a newline\<close>
  "quoted l r s =
     (case s of [] \<Rightarrow> False
      | c # cs \<Rightarrow> c = l \<and>
          (let body = (if cs \<noteq> [] \<and> last cs = NL then butlast cs else cs)
           in body \<noteq> [] \<and> last body = r \<and> NL \<notin> set (butlast body)))"

definition quote_patterns :: "(string \<Rightarrow> bool) list" where
  "quote_patterns =
     [quoted (CHR 0x22) (CHR 0x22), quoted (CHR 0xAB) (CHR 0xBB), quoted (CHR 0x22) (CHR 0x22)]"

definition footnote_patterns :: "(string \<Rightarrow> bool) list" where
  \<comment> \<open>\<open>^\d+\s+\<close> and \<open>^\*\s+\<close>\<close>
  "footnote_patterns =
     [\<lambda>s. rx_then (rx_plus is_digit s) (rx_plus is_space) \<noteq> None,
      \<lambda>s. rx_then (rx_one (\<lambda>c. c = CHR ''*'') s) (rx_plus is_space) \<noteq> None]"

definition detect_chunk_type :: "string \<Rightarrow> ChunkType" where
  "detect_chunk_type t =
     (if list_ex (\<lambda>p. p (strip t)) title_patterns then TITLE
      else if list_ex (\<lambda>p. p (strip t)) list_patterns then LIST_ITEM
      else if list_ex (\<lambda>p. p (strip t)) quote_patterns then QUOTE
      else if list_ex (\<lambda>p. p (strip t)) footnote_patterns then FOOTNOTE
      else PARAGRAPH)"

subsection \<open>Chunk creation\<close>

definition split_into_sentences :: "string \<Rightarrow> string list" where
  "split_into_sentences t =
     filter (\<lambda>sentence. sentence \<noteq> [] \<and> 10 < length sentence)
       (map strip (re_split rx_sentence_end t))"

definition chunk_metadata :: "int \<Rightarrow> string \<Rightarrow> TextChunk list \<Rightarrow> py_dict" where
  "chunk_metadata document_id filename chunks =
     [(''document_id'', PyInt document_id), (''filename'', PyStr filename),
      (''paragraph_index'', PyInt (int (length chunks)))]"

fun sentence_loop ::
  "TextChunker \<Rightarrow> ChunkType \<Rightarrow> int \<Rightarrow> string \<Rightarrow>
   TextChunk list \<Rightarrow> string \<Rightarrow> int \<Rightarrow> string list \<Rightarrow> TextChunk list \<times> string \<times> int" where
  \<comment> \<open>the \<open>for sentence in sentences\<close> loop; the state is
      \<open>(chunks, current_chunk, current_start)\<close>\<close>
  "sentence_loop self ty document_id filename chunks current_chunk current_start [] =
     (chunks, current_chunk, current_start)"
| "sentence_loop self ty document_id filename chunks current_chunk current_start
     (sentence # sentences) =
     (if chunk_size self < int (length current_chunk) + int (length sentence)
         \<and> current_chunk \<noteq> []
      then
        let chunk = new_TextChunk (strip current_chunk) ty current_start
                      (current_start + int (length current_chunk))
                      (chunk_metadata document_id filename chunks)
        in sentence_loop self ty document_id filename (chunks @ [chunk]) sentence
             (current_start + int (length (text_c chunk))) sentences
      else
        sentence_loop self ty document_id filename chunks
          (if current_chunk \<noteq> [] then current_chunk @ '' '' @ sentence else sentence)
          current_start sentences)"

definition create_chunks_from_paragraph ::
  "TextChunker \<Rightarrow> string \<Rightarrow> int \<Rightarrow> ChunkType \<Rightarrow> int \<Rightarrow> string \<Rightarrow> TextChunk list" where
  "create_chunks_from_paragraph self paragraph start ty document_id filename =
     (if int (length paragraph) \<le> chunk_size self
      then [new_TextChunk paragraph ty start (start + int (length paragraph))
              (chunk_metadata document_id filename [])]
      else
        (case sentence_loop self ty document_id filename [] [] start
                (split_into_sentences paragraph) of
           (chunks, current_chunk, current_start) \<Rightarrow>
             if current_chunk \<noteq> [] \<and> min_chunk_size self \<le> int (length (strip current_chunk))
             then chunks @
                    [new_TextChunk (strip current_chunk) ty current_start
                       (current_start + int (length current_chunk))
                       (chunk_metadata document_id filename chunks)]
             else chunks))"

fun paragraph_loop ::
  "TextChunker \<Rightarrow> int \<Rightarrow> string \<Rightarrow> TextChunk list \<Rightarrow> int \<Rightarrow> string list \<Rightarrow> TextChunk list" where
  \<comment> \<open>the \<open>for paragraph in paragraphs\<close> loop of \<open>chunk_text\<close>; the state is
      \<open>(chunks, current_position)\<close>\<close>
  "paragraph_loop self document_id filename chunks current_position [] = chunks"
| "paragraph_loop self document_id filename chunks current_position (paragraph # paragraphs) =
     (if int (length (strip paragraph)) < min_chunk_size self
      then paragraph_loop self document_id filename chunks current_position paragraphs
      else
        paragraph_loop self document_id filename
          (chunks @ create_chunks_from_paragraph self paragraph current_position
                      (detect_chunk_type paragraph) document_id filename)
          (current_position + int (length paragraph)) paragraphs)"

subsection \<open>Overlap and validation\<close>

definition get_overlap_text :: "string \<Rightarrow> int \<Rightarrow> string" where
  "get_overlap_text t n =
     (if int (length t) \<le> n then t
      else
        let overlap_text = py_slice_from (- n) t
        in (case re_search_end rx_boundary overlap_text of
              Some e \<Rightarrow> drop e overlap_text
            | None \<Rightarrow> overlap_text))"

definition overlap_chunk :: "TextChunker \<Rightarrow> TextChunk \<Rightarrow> TextChunk \<Rightarrow> TextChunk" where
  \<comment> \<open>the \<open>else\<close> branch of the loop body of \<open>_apply_overlap\<close>\<close>
  "overlap_chunk self prev_chunk chunk =
     (let overlap_text = get_overlap_text (text_c prev_chunk) (overlap_size self)
      in if overlap_text \<noteq> []
         then new_TextChunk (overlap_text @ '' '' @ text_c chunk) (chunk_type chunk)
                (start_pos chunk) (end_pos chunk) (metadata chunk)
         else chunk)"

definition apply_overlap :: "TextChunker \<Rightarrow> TextChunk list \<Rightarrow> TextChunk list" where
  "apply_overlap self chunks =
     (if length chunks \<le> 1 then chunks
      else map (\<lambda>i. if i = 0 then chunks ! i
                    else overlap_chunk self (chunks ! (i - 1)) (chunks ! i))
             [0 ..< length chunks])"

definition cleanup_chunk :: "TextChunker \<Rightarrow> TextChunk \<Rightarrow> TextChunk" where
  \<comment> \<open>truncation, stripping and the final counts of \<open>_validate_and_cleanup_chunks\<close>\<close>
  "cleanup_chunk self chunk =
     (let t1 = (if max_chunk_size self < int (length (text_c chunk))
                then py_slice_to (max_chunk_size self) (text_c chunk) else text_c chunk);
          t2 = strip t1
      in chunk\<lparr>text_c := t2,
               metadata := dict_update (metadata chunk)
                 [(''final_word_count'', PyInt (int (count_words False t2))),
                  (''final_char_count'', PyInt (int (length t2)))]\<rparr>)"

definition validate_and_cleanup_chunks :: "TextChunker \<Rightarrow> TextChunk list \<Rightarrow> TextChunk list" where
  "validate_and_cleanup_chunks self chunks =
     map (cleanup_chunk self)
       (filter (\<lambda>chunk. \<not> int (length (strip (text_c chunk))) < min_chunk_size self) chunks)"

subsection \<open>\<open>chunk_text\<close>\<close>

definition re_sub_arg :: "py_value \<Rightarrow> py_exception + string" where
  \<comment> \<open>the first \<open>re.sub\<close> of \<open>_preprocess_text\<close> raises TypeError on an argument
      that is not a string\<close>
  "re_sub_arg t =
     (case t of PyStr s \<Rightarrow> Inr s
      | _ \<Rightarrow> Inl (TypeError ''expected string or bytes-like object''))"

definition chunk_text_body ::
  "TextChunker \<Rightarrow> py_value \<Rightarrow> int \<Rightarrow> string \<Rightarrow> py_exception + TextChunk list" where
  \<comment> \<open>the body of the \<open>try\<close> block\<close>
  "chunk_text_body self t document_id filename =
     (case re_sub_arg t of
        Inl e \<Rightarrow> Inl e
      | Inr s \<Rightarrow>
          let paragraphs = split_into_paragraphs (preprocess_text s);
              chunks = paragraph_loop self document_id filename [] 0 paragraphs
          in Inr (validate_and_cleanup_chunks self (apply_overlap self chunks)))"

definition chunk_text :: "TextChunker \<Rightarrow> py_value \<Rightarrow> int \<Rightarrow> string \<Rightarrow> TextChunk list" where
  \<comment> \<open>\<open>except Exception: return []\<close>\<close>
  "chunk_text self t document_id filename =
     (case chunk_text_body self t document_id filename of
        Inl e \<Rightarrow> []
      | Inr chunks \<Rightarrow> chunks)"

section \<open>Documents (\<open>app/models/document.py\<close>)\<close>

datatype DocumentStatus = UPLOADING | UPLOADED | PROCESSING | PROCESSED | ANALYZED | ERROR

type_synonym timestamp = nat

record Document =
  doc_id :: int
  doc_filename :: string
  original_filename :: string
  file_path :: string
  file_type :: string
  extracted_text :: "string option"
  page_count :: "int option"
  status :: DocumentStatus
  is_analyzed :: bool
  analysis_result :: "py_dict option"
  central_thesis :: "py_value option"
  key_concepts :: "py_value option"
  argumentative_structure :: "py_value option"
  cited_sources :: "py_value option"
  error_message :: "string option"
  analyzed_at :: "timestamp option"
  project_id :: int

definition ascii_lower :: "char \<Rightarrow> char" where
  "ascii_lower c =
     (if is_upper c then char_of (of_char c + (32 :: nat)) else c)"

definition is_pdf :: "Document \<Rightarrow> bool" where
  \<comment> \<open>\<open>file_type.lower() == ".pdf"\<close>; lowering a character outside \<open>A-Z\<close> never
      yields a character of \<open>".pdf"\<close>\<close>
  "is_pdf d \<longleftrightarrow> map ascii_lower (file_type d) = ''.pdf''"

definition is_docx :: "Document \<Rightarrow> bool" where
  "is_docx d \<longleftrightarrow> map ascii_lower (file_type d) = ''.docx''"

definition copy_key :: "py_dict \<Rightarrow> string \<Rightarrow> py_value option \<Rightarrow> py_value option" where
  \<comment> \<open>\<open>if key in analysis_data: field = analysis_data[key]\<close>\<close>
  "copy_key analysis_data key old =
     (case map_of analysis_data key of Some v \<Rightarrow> Some v | None \<Rightarrow> old)"

definition mark_as_analyzed :: "timestamp \<Rightarrow> py_dict \<Rightarrow> Document \<Rightarrow> Document" where
  "mark_as_analyzed now analysis_data d =
     d\<lparr>status := ANALYZED,
       is_analyzed := True,
       analyzed_at := Some now,
       analysis_result := Some analysis_data,
       central_thesis := copy_key analysis_data ''central_thesis'' (central_thesis d),
       key_concepts := copy_key analysis_data ''key_concepts'' (key_concepts d),
       argumentative_structure :=
         copy_key analysis_data ''argumentative_structure'' (argumentative_structure d),
       cited_sources := copy_key analysis_data ''cited_sources'' (cited_sources d)\<rparr>"

section \<open>The vector service (\<open>app/services/vector_service.py\<close>)\<close>

text \<open>
  A Chroma collection is modelled as the list of its entries.  The id string
  \<open>doc_{document_id}_chunk_{i}\<close> is kept as the pair it is built from.  The embedding
  model is a collaborator that may raise.  \<open>collection.add\<close> raises when its lists
  differ in length, which \<open>add_document_embeddings\<close> catches and answers with \<open>False\<close>.
\<close>

record vector_entry =
  entry_id :: "int \<times> nat"
  entry_document :: string
  entry_metadata :: py_dict
  entry_embedding :: "real list"

type_synonym collections = "int \<rightharpoonup> vector_entry list"

definition get_or_create_collection :: "int \<Rightarrow> collections \<Rightarrow> vector_entry list \<times> collections" where
  "get_or_create_collection pid cols =
     (case cols pid of
        Some c \<Rightarrow> (c, cols)
      | None \<Rightarrow> ([], cols(pid \<mapsto> [])))"

definition collection_add :: "vector_entry list \<Rightarrow> vector_entry list \<Rightarrow> vector_entry list" where
  \<comment> \<open>\<open>collection.add\<close>: an entry whose id is already present is left as it is\<close>
  "collection_add new c =
     c @ filter (\<lambda>e. entry_id e \<notin> entry_id ` set c) new"

definition collection_delete_where :: "string \<Rightarrow> py_value \<Rightarrow> vector_entry list \<Rightarrow> vector_entry list" where
  \<comment> \<open>\<open>collection.delete(where={key: value})\<close>\<close>
  "collection_delete_where key v c =
     filter (\<lambda>e. map_of (entry_metadata e) key \<noteq> Some v) c"

definition add_document_embeddings ::
  "(string list \<Rightarrow> py_exception + real list list) \<Rightarrow>
   int \<Rightarrow> int \<Rightarrow> string list \<Rightarrow> py_dict list \<Rightarrow> collections \<Rightarrow> bool \<times> collections" where
  "add_document_embeddings generate_embeddings pid document_id chunks metadatas cols =
     (if chunks = [] \<or> metadatas = [] then (False, cols)
      else
        (case get_or_create_collection pid cols of
           (c, cols1) \<Rightarrow>
             (case generate_embeddings chunks of
                Inl e \<Rightarrow> (False, cols1)
              | Inr embeddings \<Rightarrow>
                  if length embeddings \<noteq> length chunks \<or> length metadatas \<noteq> length chunks
                  then (False, cols1)
                  else
                    let entries =
                          map (\<lambda>i. \<lparr>entry_id = (document_id, i), entry_document = chunks ! i,
                                    entry_metadata = metadatas ! i,
                                    entry_embedding = embeddings ! i\<rparr>)
                            [0 ..< length chunks]
                    in (True, cols1(pid \<mapsto> collection_add entries c)))))"

definition delete_document_embeddings :: "int \<Rightarrow> int \<Rightarrow> collections \<Rightarrow> bool \<times> collections" where
  "delete_document_embeddings pid document_id cols =
     (case get_or_create_collection pid cols of
        (c, cols1) \<Rightarrow>
          (True, cols1(pid \<mapsto> collection_delete_where ''document_id'' (PyInt document_id) c)))"

section \<open>The background processor (\<open>app/services/background_processor.py\<close>)\<close>

text \<open>
  The names a function of the module calls are resolved in the module's globals when
  the call runs.  \<open>async with f() as db\<close> needs \<open>f()\<close> to be an asynchronous context
  manager: a name that is not bound raises NameError, and the object returned by an
  async generator function (an \<open>async def\<close> with \<open>yield\<close> and no
  \<open>asynccontextmanager\<close> decorator) has no \<open>__aenter__\<close>, so entering raises TypeError.
\<close>

datatype py_callable = AsyncGeneratorFunction | AsyncContextManagerFactory

type_synonym module_globals = "(string \<times> py_callable) list"

definition background_processor_globals :: module_globals where
  \<comment> \<open>\<open>from app.core.database import get_async_session\<close>, where it is an
      \<open>async def\<close> with a \<open>yield\<close>; \<open>get_db\<close> is bound nowhere\<close>
  "background_processor_globals = [(''get_async_session'', AsyncGeneratorFunction)]"

definition async_with :: "module_globals \<Rightarrow> string \<Rightarrow> py_exception + unit" where
  "async_with g name =
     (case map_of g name of
        None \<Rightarrow> Inl (NameError (''name '' @ name @ '' is not defined''))
      | Some AsyncGeneratorFunction \<Rightarrow>
          Inl (TypeError
            ''async_generator object does not support the asynchronous context manager protocol'')
      | Some AsyncContextManagerFactory \<Rightarrow> Inr ())"

record job =
  job_document_id :: int
  job_priority :: int
  queued_at :: timestamp

record collaborators =
  extract_text_from_pdf :: "string \<Rightarrow> py_exception + string \<times> int"
  extract_text_from_docx :: "string \<Rightarrow> py_exception + string \<times> int"
  extract_central_thesis :: "string \<Rightarrow> string \<Rightarrow> py_value"
  extract_key_concepts :: "string \<Rightarrow> string \<Rightarrow> py_value"
  analyze_argumentative_structure :: "string \<Rightarrow> string \<Rightarrow> py_value"
  extract_citations :: "string \<Rightarrow> string \<Rightarrow> py_value"
  analysis_metadata :: "string \<Rightarrow> string \<Rightarrow> py_value"
  generate_embeddings :: "string list \<Rightarrow> py_exception + real list list"
  clock :: timestamp

record world =
  documents :: "int \<rightharpoonup> Document"
  vector_collections :: collections
  processing_queue :: "job list"
  current_tasks :: "int set"

text \<open>
  A session holds the document object that the job mutates and the rows it has
  committed so far, oldest first.
\<close>

record session =
  row :: Document
  commits :: "Document list"

definition commit :: "session \<Rightarrow> session" where
  \<comment> \<open>\<open>await db.commit()\<close>\<close>
  "commit s = s\<lparr>commits := commits s @ [row s]\<rparr>"

definition analyze_document :: "collaborators \<Rightarrow> string \<Rightarrow> string \<Rightarrow> py_exception + py_dict" where
  \<comment> \<open>\<open>AIService.analyze_document\<close>: the length test, then the four model calls, each
      of which catches every exception and answers with a fallback value, so that
      nothing after the test raises\<close>
  "analyze_document env document_text fname =
     (if document_text = [] \<or> length (strip document_text) < 100
      then Inl (ValueError ''Document text is too short for meaningful analysis'')
      else Inr [(''central_thesis'', extract_central_thesis env document_text fname),
                (''key_concepts'', extract_key_concepts env document_text fname),
                (''argumentative_structure'',
                   analyze_argumentative_structure env document_text fname),
                (''cited_sources'', extract_citations env document_text fname),
                (''analysis_metadata'', analysis_metadata env document_text fname)])"

definition process_extract_text :: "collaborators \<Rightarrow> Document \<Rightarrow> py_exception + string \<times> int" where
  \<comment> \<open>\<open>_extract_text\<close>\<close>
  "process_extract_text env d =
     (if is_pdf d then extract_text_from_pdf env (file_path d)
      else if is_docx d then extract_text_from_docx env (file_path d)
      else Inl (ValueError (''Unsupported file type: '' @ file_type d)))"

definition process_chunk_text :: "Document \<Rightarrow> py_exception + TextChunk list" where
  \<comment> \<open>\<open>_chunk_text\<close>\<close>
  "process_chunk_text d =
     (case extracted_text d of
        None \<Rightarrow> Inl (ValueError ''No extracted text available'')
      | Some t \<Rightarrow>
          if t = [] then Inl (ValueError ''No extracted text available'')
          else Inr (chunk_text text_chunker (PyStr t) (doc_id d) (doc_filename d)))"

definition store_metadata :: "collaborators \<Rightarrow> Document \<Rightarrow> nat \<Rightarrow> TextChunk \<Rightarrow> py_dict" where
  "store_metadata env d i chunk =
     dict_update (metadata chunk)
       [(''chunk_id'', PyInt (int i)),
        (''document_id'', PyInt (doc_id d)),
        (''project_id'', PyInt (project_id d)),
        (''filename'', PyStr (doc_filename d)),
        (''file_type'', PyStr (file_type d)),
        (''chunk_type'', PyStr (ChunkType_value (chunk_type chunk))),
        (''start_pos'', PyInt (start_pos chunk)),
        (''end_pos'', PyInt (end_pos chunk)),
        (''created_at'', PyInt (int (clock env)))]"

definition store_embeddings ::
  "collaborators \<Rightarrow> Document \<Rightarrow> TextChunk list \<Rightarrow> collections \<Rightarrow> bool \<times> collections" where
  \<comment> \<open>\<open>_store_embeddings\<close>\<close>
  "store_embeddings env d chunks cols =
     (if chunks = [] then (False, cols)
      else add_document_embeddings (generate_embeddings env) (project_id d) (doc_id d)
             (map text_c chunks)
             (map (\<lambda>i. store_metadata env d i (chunks ! i)) [0 ..< length chunks]) cols)"

record run_result =
  world_after :: world
  committed :: "Document list"
  raised :: "py_exception option"

definition fail_job :: "py_exception \<Rightarrow> session \<Rightarrow> session" where
  \<comment> \<open>the \<open>except Exception as e\<close> handler of \<open>_process_document\<close>\<close>
  "fail_job e s =
     commit (s\<lparr>row := (row s)\<lparr>status := ERROR, error_message := Some (str_of_exception e)\<rparr>\<rparr>)"

definition run_analysis_stage :: "collaborators \<Rightarrow> string \<Rightarrow> session \<Rightarrow> session" where
  \<comment> \<open>the inner \<open>try\<close> of step 3: a failure is logged and the job goes on\<close>
  "run_analysis_stage env extracted s =
     (case analyze_document env extracted (original_filename (row s)) of
        Inr analysis \<Rightarrow> commit (s\<lparr>row := mark_as_analyzed (clock env) analysis (row s)\<rparr>)
      | Inl e \<Rightarrow> s)"

definition run_index_stage :: "collaborators \<Rightarrow> session \<Rightarrow> collections \<Rightarrow> session \<times> collections" where
  \<comment> \<open>steps 4 and 5 and the final status\<close>
  "run_index_stage env s cols =
     (case process_chunk_text (row s) of
        Inl e \<Rightarrow> (fail_job e s, cols)
      | Inr chunks \<Rightarrow>
          (case store_embeddings env (row s) chunks cols of
             (success, cols') \<Rightarrow>
               if success
               then ((if status (row s) \<noteq> ANALYZED
                      then commit (s\<lparr>row := (row s)\<lparr>status := ANALYZED,
                                                      analyzed_at := Some (clock env)\<rparr>\<rparr>)
                      else s), cols')
               else (fail_job (Exception ''Failed to store embeddings'') s, cols')))"

definition run_stages :: "collaborators \<Rightarrow> Document \<Rightarrow> collections \<Rightarrow> session \<times> collections" where
  \<comment> \<open>the \<open>try\<close> block of \<open>_process_document\<close> with its \<open>except\<close> handler, for a
      document that was found\<close>
  "run_stages env d cols =
     (let s0 = commit \<lparr>row = d\<lparr>status := PROCESSING\<rparr>, commits = []\<rparr>
      in (case process_extract_text env (row s0) of
            Inl e \<Rightarrow> (fail_job e s0, cols)
          | Inr (extracted, pages) \<Rightarrow>
              run_index_stage env
                (run_analysis_stage env extracted
                  (commit (s0\<lparr>row := (row s0)\<lparr>extracted_text := Some extracted,
                                                page_count := Some pages,
                                                status := PROCESSED\<rparr>\<rparr>)))
                cols))"

definition remove_task :: "int \<Rightarrow> world \<Rightarrow> world" where
  \<comment> \<open>the \<open>finally\<close> block\<close>
  "remove_task document_id w = w\<lparr>current_tasks := current_tasks w - {document_id}\<rparr>"

definition process_document :: "module_globals \<Rightarrow> collaborators \<Rightarrow> world \<Rightarrow> int \<Rightarrow> run_result" where
  \<comment> \<open>\<open>_process_document\<close>: the \<open>async with\<close> is entered before the \<open>try\<close>, so an
      exception raised there leaves the coroutine without running \<open>finally\<close>\<close>
  "process_document g env w document_id =
     (case async_with g ''get_async_session'' of
        Inl e \<Rightarrow> \<lparr>world_after = w, committed = [], raised = Some e\<rparr>
      | Inr _ \<Rightarrow>
          (case documents w document_id of
             None \<Rightarrow> \<lparr>world_after = remove_task document_id w, committed = [], raised = None\<rparr>
           | Some d \<Rightarrow>
               (case run_stages env d (vector_collections w) of
                  (s, cols) \<Rightarrow>
                    \<lparr>world_after =
                       remove_task document_id
                         (w\<lparr>documents := (documents w)(document_id \<mapsto> last (commits s)),
                            vector_collections := cols\<rparr>),
                     committed = commits s, raised = None\<rparr>)))"

definition queue_document_for_processing :: "collaborators \<Rightarrow> int \<Rightarrow> int \<Rightarrow> world \<Rightarrow> world" where
  "queue_document_for_processing env document_id priority w =
     w\<lparr>processing_queue := processing_queue w @
          [\<lparr>job_document_id = document_id, job_priority = priority, queued_at = clock env\<rparr>]\<rparr>"

definition processing_loop_step :: "world \<Rightarrow> world \<times> int option" where
  \<comment> \<open>one round of \<open>_processing_loop\<close>; the second component is the document whose
      task the round created\<close>
  "processing_loop_step w =
     (case processing_queue w of
        [] \<Rightarrow> (w, None)
      | task # rest \<Rightarrow>
          let w1 = w\<lparr>processing_queue := rest\<rparr>;
              document_id = job_document_id task
          in if document_id \<in> current_tasks w1 then (w1, None)
             else (w1\<lparr>current_tasks := insert document_id (current_tasks w1)\<rparr>,
                   Some document_id))"

definition reprocess_document :: "module_globals \<Rightarrow> collaborators \<Rightarrow> world \<Rightarrow> int \<Rightarrow> run_result" where
  "reprocess_document g env w document_id =
     (case async_with g ''get_db'' of
        Inl e \<Rightarrow> \<lparr>world_after = w, committed = [], raised = Some e\<rparr>
      | Inr _ \<Rightarrow>
          (case documents w document_id of
             None \<Rightarrow> \<lparr>world_after = w, committed = [], raised = None\<rparr>
           | Some d \<Rightarrow>
               (case delete_document_embeddings (project_id d) document_id
                       (vector_collections w) of
                  (deleted, cols) \<Rightarrow>
                    let d' = d\<lparr>status := UPLOADED, extracted_text := None, page_count := None,
                              analyzed_at := None, error_message := None\<rparr>
                    in \<lparr>world_after =
                          queue_document_for_processing env document_id 1
                            (w\<lparr>documents := (documents w)(document_id \<mapsto> d'),
                               vector_collections := cols\<rparr>),
                        committed = [d'], raised = None\<rparr>)))"

section \<open>Retrieval (\<open>AIService.retrieve_context\<close>)\<close>

record ChatContextChunk =
  ctx_document_id :: int
  ctx_chunk_text :: string
  similarity_score :: real
  ctx_metadata :: py_dict

record search_results =
  sr_documents :: "string option list list"
  sr_metadatas :: "py_dict option list list"
  sr_distances :: "real list list"

definition first_list :: "'a list list \<Rightarrow> py_exception + 'a list" where
  \<comment> \<open>\<open>xs[0]\<close>\<close>
  "first_list xs =
     (case xs of [] \<Rightarrow> Inl (Exception ''list index out of range'') | x # _ \<Rightarrow> Inr x)"

definition similarity_of_distance :: "real \<Rightarrow> real" where
  \<comment> \<open>\<open>1.0 - distance if distance < 1.0 else 0.0\<close>\<close>
  "similarity_of_distance distance = (if distance < 1 then 1 - distance else 0)"

definition truthy_entry :: "string option \<times> py_dict option \<times> real \<Rightarrow> bool" where
  \<comment> \<open>\<open>if doc_text and metadata\<close>: \<open>None\<close>, the empty string and the empty dict are false\<close>
  "truthy_entry x =
     (case x of (doc_text, md, distance) \<Rightarrow>
        doc_text \<noteq> None \<and> doc_text \<noteq> Some [] \<and> md \<noteq> None \<and> md \<noteq> Some [])"

fun context_loop ::
  "(py_value \<Rightarrow> py_exception + int) \<Rightarrow>
   (string option \<times> py_dict option \<times> real) list \<Rightarrow> py_exception + ChatContextChunk list" where
  \<comment> \<open>the \<open>for\<close> loop; the first argument is the validation of the \<open>document_id\<close>
      field by the \<open>ChatContextChunk\<close> model\<close>
  "context_loop validate_int [] = Inr []"
| "context_loop validate_int ((doc_text, md, distance) # rest) =
     (if truthy_entry (doc_text, md, distance)
      then
        (case validate_int (case map_of (the md) ''document_id'' of
                              Some v \<Rightarrow> v | None \<Rightarrow> PyInt 0) of
           Inl e \<Rightarrow> Inl e
         | Inr n \<Rightarrow>
             (case context_loop validate_int rest of
                Inl e \<Rightarrow> Inl e
              | Inr chunks \<Rightarrow>
                  Inr (\<lparr>ctx_document_id = n, ctx_chunk_text = the doc_text,
                        similarity_score = similarity_of_distance distance,
                        ctx_metadata = the md\<rparr> # chunks)))
      else context_loop validate_int rest)"

definition retrieve_context_body ::
  "(py_value \<Rightarrow> py_exception + int) \<Rightarrow> search_results \<Rightarrow> py_exception + ChatContextChunk list" where
  "retrieve_context_body validate_int res =
     (if sr_documents res = [] then Inr []
      else
        (case first_list (sr_documents res) of Inl e \<Rightarrow> Inl e | Inr docs \<Rightarrow>
        (case first_list (sr_metadatas res) of Inl e \<Rightarrow> Inl e | Inr mds \<Rightarrow>
        (case first_list (sr_distances res) of Inl e \<Rightarrow> Inl e | Inr dists \<Rightarrow>
           context_loop validate_int (zip docs (zip mds dists))))))"

definition retrieve_context ::
  "(py_value \<Rightarrow> py_exception + int) \<Rightarrow> search_results \<Rightarrow> ChatContextChunk list" where
  \<comment> \<open>\<open>except Exception: return []\<close>\<close>
  "retrieve_context validate_int res =
     (case retrieve_context_body validate_int res of Inl e \<Rightarrow> [] | Inr chunks \<Rightarrow> chunks)"

section \<open>Notions used in the statements\<close>

definition plain :: "string \<Rightarrow> bool" where
  \<comment> \<open>a text without whitespace, sentence punctuation or digits\<close>
  "plain s \<longleftrightarrow> (\<forall>c\<in>set s. \<not> is_space c \<and> \<not> is_punct c \<and> \<not> is_digit c)"

definition reaches_chunking :: "TextChunker \<Rightarrow> string \<Rightarrow> bool" where
  \<comment> \<open>the paragraphs that the loop of \<open>chunk_text\<close> does not skip\<close>
  "reaches_chunking self p \<longleftrightarrow> min_chunk_size self \<le> int (length (strip p))"

fun paragraph_starts :: "int \<Rightarrow> string list \<Rightarrow> int list" where
  \<comment> \<open>the values of \<open>current_position\<close> at which the paragraphs of a list start\<close>
  "paragraph_starts pos [] = []"
| "paragraph_starts pos (p # ps) = pos # paragraph_starts (pos + int (length p)) ps"

definition sample_document :: Document where
  "sample_document =
     \<lparr>doc_id = 1, doc_filename = ''a.pdf'', original_filename = ''a.pdf'',
      file_path = ''uploads/7/a.pdf'', file_type = ''.pdf'', extracted_text = None,
      page_count = None, status = UPLOADED, is_analyzed = False, analysis_result = None,
      central_thesis = None, key_concepts = None, argumentative_structure = None,
      cited_sources = None, error_message = None, analyzed_at = None, project_id = 7\<rparr>"

definition sample_world :: world where
  "sample_world =
     \<lparr>documents = [1 \<mapsto> sample_document], vector_collections = Map.empty,
      processing_queue = [], current_tasks = {1}\<rparr>"








definition validates ::
  "(py_value \<Rightarrow> py_exception + int) \<Rightarrow> string option \<times> py_dict option \<times> real \<Rightarrow> bool" where
  \<comment> \<open>the \<open>ChatContextChunk\<close> model accepts the \<open>document_id\<close> of the entry's metadata\<close>
  "validates validate_int x =
     (case x of (doc_text, md, distance) \<Rightarrow>
        (case validate_int (case map_of (the md) ''document_id'' of
                              Some v \<Rightarrow> v | None \<Rightarrow> PyInt 0) of
           Inr n \<Rightarrow> True | Inl e \<Rightarrow> False))"

definition spec_context_chunk ::
  "(py_value \<Rightarrow> py_exception + int) \<Rightarrow> string option \<times> py_dict option \<times> real \<Rightarrow> ChatContextChunk" where
  \<comment> \<open>the context chunk the specification asks for, with the score
      \<open>max(0, 1 - distance)\<close>\<close>
  "spec_context_chunk validate_int x =
     (case x of (doc_text, md, distance) \<Rightarrow>
        \<lparr>ctx_document_id =
           (case validate_int (case map_of (the md) ''document_id'' of
                                 Some v \<Rightarrow> v | None \<Rightarrow> PyInt 0) of
              Inr n \<Rightarrow> n | Inl e \<Rightarrow> 0),
         ctx_chunk_text = the doc_text,
         similarity_score = max 0 (1 - distance),
         ctx_metadata = the md\<rparr>)"

definition sample_validate_int :: "py_value \<Rightarrow> py_exception + int" where
  "sample_validate_int x =
     (case x of PyInt n \<Rightarrow> Inr n | _ \<Rightarrow> Inl (Exception ''validation error''))"

definition sample_results :: search_results where
  "sample_results =
     \<lparr>sr_documents = [[Some ''alpha'', Some [], None, Some ''beta'', Some ''gamma'']],
      sr_metadatas = [[Some [(''document_id'', PyInt 3)], Some [(''document_id'', PyInt 3)],
                       Some [(''document_id'', PyInt 3)], None,
                       Some [(''document_id'', PyInt 4)]]],
      sr_distances = [[1 / 4, 0, 0, 0, 3 / 2]]\<rparr>"

definition intro_prefix :: string where
  "intro_prefix = ''Introduzione. Introduzione. Introduzione. Introduzione. Introduzione. ''"

definition intro_joined :: string where
  "intro_joined = ''Introduzione Introduzione Introduzione Introduzione Introduzione''"

definition cleanup_text :: "TextChunker \<Rightarrow> string \<Rightarrow> string" where
  \<comment> \<open>what \<open>_validate_and_cleanup_chunks\<close> does to the text of a chunk it keeps\<close>
  "cleanup_text self t =
     strip (if max_chunk_size self < int (length t) then py_slice_to (max_chunk_size self) t
            else t)"

fun has_boundary :: "string \<Rightarrow> bool" where
  \<comment> \<open>somewhere in the text a character of \<open>[.!?]\<close> is followed by whitespace\<close>
  "has_boundary (a # b # s) = ((is_punct a \<and> is_space b) \<or> has_boundary (b # s))"
| "has_boundary [a] = False"
| "has_boundary [] = False"



definition overlap_example_first :: string where
  "overlap_example_first = replicate 300 (CHR ''a'') @ '' '' @ replicate 199 (CHR ''b'')"


section \<open>Properties of the chunker\<close>

subsection \<open>Texts on which a pattern matches nowhere\<close>

lemma re_sub_no_match:
  "(\<And>c cs. c \<in> set s \<Longrightarrow> rx (c # cs) = None) \<Longrightarrow> re_sub rx repl s = s"
  by (induction s) auto

lemma re_split_no_match:
  "(\<And>c cs. c \<in> set s \<Longrightarrow> rx (c # cs) = None) \<Longrightarrow> re_split rx s = [s]"
  by (induction s) (auto simp: extend_piece_def)

lemma re_search_end_no_match:
  "(\<And>c cs. c \<in> set s \<Longrightarrow> rx (c # cs) = None) \<Longrightarrow> re_search_end rx s = None"
  by (induction s) auto

lemma rx_ws_run_None: "\<not> is_space c \<Longrightarrow> rx_ws_run (c # cs) = None"
  by (simp add: rx_ws_run_def rx_plus_def)

lemma rx_blank_line_None: "c \<noteq> NL \<Longrightarrow> rx_blank_line (c # cs) = None"
  by (simp add: rx_blank_line_def rx_one_def rx_then_def)

lemma rx_dots_None: "c \<noteq> CHR ''.'' \<Longrightarrow> rx_dots (c # cs) = None"
  by (simp add: rx_dots_def)

lemma rx_sentence_end_None: "\<not> is_punct c \<Longrightarrow> rx_sentence_end (c # cs) = None"
  by (simp add: rx_sentence_end_def rx_plus_def rx_then_def)

lemma rx_boundary_None: "\<not> is_punct c \<Longrightarrow> rx_boundary (c # cs) = None"
  by (simp add: rx_boundary_def rx_one_def rx_then_def)

lemma rx_page_number_None: "\<not> is_digit c \<Longrightarrow> rx_page_number (c # cs) = None"
  by (simp add: rx_page_number_def rx_plus_def rx_then_def)

lemma sub_page_numbers_False: "NL \<notin> set s \<Longrightarrow> sub_page_numbers False s = s"
  by (induction s) auto

lemma sub_page_numbers_True:
  "NL \<notin> set s \<Longrightarrow> \<not> is_digit (hd s) \<Longrightarrow> sub_page_numbers True s = s"
  by (cases s) (auto simp: rx_page_number_None sub_page_numbers_False)

lemma dropWhile_hd: "xs \<noteq> [] \<Longrightarrow> \<not> P (hd xs) \<Longrightarrow> dropWhile P xs = xs"
  by (cases xs) auto

lemma strip_id:
  assumes "s \<noteq> []" "\<not> is_space (hd s)" "\<not> is_space (last s)"
  shows "strip s = s"
proof -
  have a: "dropWhile is_space s = s"
    using assms by (simp add: dropWhile_hd)
  have "rev s \<noteq> []" "\<not> is_space (hd (rev s))"
    using assms by (simp_all add: hd_rev)
  then have b: "dropWhile is_space (rev s) = rev s"
    by (rule dropWhile_hd)
  show ?thesis
    by (simp add: strip_def a b)
qed

lemma NL_space: "is_space NL"
  by (simp add: is_space_def NL_def)

lemma dot_punct: "is_punct (CHR ''.'')"
  by (simp add: is_punct_def)

lemma strip_plain: "plain s \<Longrightarrow> strip s = s"
proof (cases s)
  case Nil
  then show ?thesis by (simp add: strip_def)
next
  case (Cons c cs)
  assume "plain s"
  then show ?thesis
    using Cons by (intro strip_id) (auto simp: plain_def)
qed


lemma split_into_paragraphs_plain:
  assumes p: "plain s"
  shows "split_into_paragraphs s = (if 20 < length s then [s] else [])"
proof -
  have nl: "NL \<notin> set s"
    using p NL_space by (auto simp: plain_def)
  have "re_split rx_blank_line s = [s]"
    using nl by (intro re_split_no_match rx_blank_line_None) auto
  then show ?thesis
    using p by (auto simp: split_into_paragraphs_def strip_plain)
qed



lemma plain_replicate_b: "plain (replicate n (CHR ''b''))"
  by (simp add: plain_def is_space_def is_punct_def is_digit_def)

subsection \<open>Which paragraphs are chunked\<close>

lemma paragraph_loop_kept:
  "paragraph_loop self d f chunks pos ps =
     chunks @ concat (map (\<lambda>(p, start).
         create_chunks_from_paragraph self p start (detect_chunk_type p) d f)
       (zip (filter (reaches_chunking self) ps)
            (paragraph_starts pos (filter (reaches_chunking self) ps))))"
  by (induction ps arbitrary: chunks pos) (auto simp: reaches_chunking_def)

text \<open>
  C2, as the code has it.  \<open>_split_into_paragraphs\<close> keeps a stripped piece exactly
  when it has more than 20 characters (a piece of exactly 20 is dropped), and the loop
  of \<open>chunk_text\<close> then skips every paragraph whose stripped length is below
  \<open>min_chunk_size\<close>: classification and chunk creation run on the remaining
  paragraphs only, each at the position reached by the paragraphs kept before it.
\<close>

theorem paragraphs_kept_and_chunked:
  "split_into_paragraphs t = filter (\<lambda>p. 20 < length p) (map strip (re_split rx_blank_line t))
   \<and> paragraph_loop self d f [] 0 ps =
       concat (map (\<lambda>(p, start).
           create_chunks_from_paragraph self p start (detect_chunk_type p) d f)
         (zip (filter (reaches_chunking self) ps)
              (paragraph_starts 0 (filter (reaches_chunking self) ps))))"
proof
  have "(\<lambda>p :: string. p \<noteq> [] \<and> 20 < length p) = (\<lambda>p. 20 < length p)"
    by auto
  then show "split_into_paragraphs t =
      filter (\<lambda>p. 20 < length p) (map strip (re_split rx_blank_line t))"
    by (simp add: split_into_paragraphs_def)
  show "paragraph_loop self d f [] 0 ps =
       concat (map (\<lambda>(p, start).
           create_chunks_from_paragraph self p start (detect_chunk_type p) d f)
         (zip (filter (reaches_chunking self) ps)
              (paragraph_starts 0 (filter (reaches_chunking self) ps))))"
    using paragraph_loop_kept [of self d f "[]" 0 ps] by simp
qed

theorem paragraphs_kept_and_chunked_witness:
  "split_into_paragraphs (replicate 50 (CHR ''b'')) = [replicate 50 (CHR ''b'')]
   \<and> paragraph_loop text_chunker 1 ''a.pdf'' [] 0
        [replicate 50 (CHR ''b''), replicate 150 (CHR ''b'')] =
      create_chunks_from_paragraph text_chunker (replicate 150 (CHR ''b'')) 0
        (detect_chunk_type (replicate 150 (CHR ''b''))) 1 ''a.pdf''"
  using paragraphs_kept_and_chunked [of "replicate 50 (CHR ''b'')" text_chunker 1 "''a.pdf''"
      "[replicate 50 (CHR ''b''), replicate 150 (CHR ''b'')]"]
  by (simp add: split_into_paragraphs_plain plain_replicate_b reaches_chunking_def
      strip_plain text_chunker_def)

text \<open>
  The claim as stated fails twice: a paragraph of exactly 20 characters is not shorter
  than 20 and is discarded, and a paragraph of 50 characters passes the split and is
  then skipped by \<open>chunk_text\<close>, although chunk creation would have made a chunk of it.
\<close>

theorem paragraph_discard_counterexample:
  "length (replicate 20 (CHR ''b'')) = 20
   \<and> split_into_paragraphs (replicate 20 (CHR ''b'')) = []
   \<and> split_into_paragraphs (replicate 50 (CHR ''b'')) = [replicate 50 (CHR ''b'')]
   \<and> paragraph_loop text_chunker 1 ''a.pdf'' [] 0 [replicate 50 (CHR ''b'')] = []
   \<and> length (create_chunks_from_paragraph text_chunker (replicate 50 (CHR ''b'')) 0
        (detect_chunk_type (replicate 50 (CHR ''b''))) 1 ''a.pdf'') = 1"
  by (simp add: split_into_paragraphs_plain plain_replicate_b strip_plain text_chunker_def
      create_chunks_from_paragraph_def)

subsection \<open>\<open>chunk_text\<close> never raises\<close>

lemma chunk_text_body_empty: "chunk_text_body self (PyStr []) d f = Inr []"
  by (simp add: chunk_text_body_def re_sub_arg_def preprocess_text_def
      split_into_paragraphs_def strip_def validate_and_cleanup_chunks_def apply_overlap_def)

lemma chunk_text_body_not_str:
  "chunk_text_body self PyNone d f = Inl (TypeError ''expected string or bytes-like object'')"
  by (simp add: chunk_text_body_def re_sub_arg_def)

lemma chunk_text_body_str: "\<exists>chunks. chunk_text_body self (PyStr s) d f = Inr chunks"
  by (simp add: chunk_text_body_def re_sub_arg_def Let_def)

text \<open>
  C10.  \<open>chunk_text\<close> is a total function of its text, document id and filename: when
  the body of its \<open>try\<close> block raises, the handler returns the empty list, so the call
  never raises.  A caller cannot tell the failure from an empty document: a text
  argument that is not a string makes the first \<open>re.sub\<close> raise and yields \<open>[]\<close>,
  and the empty string, on which nothing raises, yields \<open>[]\<close> as well.
\<close>

theorem chunk_text_swallows_exceptions:
  "(\<forall>e. chunk_text_body self t d f = Inl e \<longrightarrow> chunk_text self t d f = [])
   \<and> (\<exists>e. chunk_text_body self PyNone d f = Inl e) \<and> chunk_text self PyNone d f = []
   \<and> chunk_text_body self (PyStr []) d f = Inr [] \<and> chunk_text self (PyStr []) d f = []"
  by (simp add: chunk_text_def chunk_text_body_empty chunk_text_body_not_str)

theorem chunk_text_swallows_exceptions_witness:
  "chunk_text_body text_chunker PyNone 1 ''a.pdf''
     = Inl (TypeError ''expected string or bytes-like object'')
   \<and> chunk_text text_chunker PyNone 1 ''a.pdf'' = []"
  using chunk_text_swallows_exceptions [of text_chunker PyNone 1 "''a.pdf''"]
  by (simp add: chunk_text_body_not_str)

section \<open>Properties of the ingestion pipeline\<close>

lemma process_extract_text_status [simp]:
  "process_extract_text env (d\<lparr>status := st\<rparr>) = process_extract_text env d"
  by (simp add: process_extract_text_def is_pdf_def is_docx_def)




















subsection \<open>The stages of a job\<close>







lemma duplicate_job_is_discarded:
  assumes "processing_queue w = task # rest" "job_document_id task \<in> current_tasks w"
  shows "processing_loop_step w = (w\<lparr>processing_queue := rest\<rparr>, None)"
  using assms by (simp add: processing_loop_step_def Let_def)

lemma entered_job_releases_task:
  assumes "async_with g ''get_async_session'' = Inr ()"
  shows "i \<notin> current_tasks (world_after (process_document g env w i))"
  using assms
  by (simp add: process_document_def remove_task_def split: option.splits prod.splits)

text \<open>
  C9.  The module binds \<open>get_async_session\<close> to an async generator function, so
  \<open>async with get_async_session() as db\<close> raises before the \<open>try\<close> block of
  \<open>_process_document\<close> is entered and its \<open>finally\<close> never runs: the job ends with
  the exception and the world unchanged, the document stays in \<open>current_tasks\<close>, and
  the next job queued for it is discarded as a duplicate.
\<close>

theorem failed_session_keeps_task:
  "process_document background_processor_globals env w i =
     \<lparr>world_after = w, committed = [],
      raised = Some (TypeError
        ''async_generator object does not support the asynchronous context manager protocol'')\<rparr>
   \<and> 1 \<in> current_tasks (world_after
         (process_document background_processor_globals env sample_world 1))
   \<and> processing_loop_step
        ((world_after (process_document background_processor_globals env sample_world 1))
           \<lparr>processing_queue := [\<lparr>job_document_id = 1, job_priority = 1, queued_at = 9\<rparr>]\<rparr>)
      = (world_after (process_document background_processor_globals env sample_world 1)
           \<lparr>processing_queue := []\<rparr>, None)"
proof -
  have a: "process_document background_processor_globals env w i =
     \<lparr>world_after = w, committed = [],
      raised = Some (TypeError
        ''async_generator object does not support the asynchronous context manager protocol'')\<rparr>"
    for w i
    by (simp add: process_document_def async_with_def background_processor_globals_def)
  show ?thesis
    by (simp add: a) (simp add: sample_world_def processing_loop_step_def)
qed

text \<open>
  C8.  \<open>reprocess_document\<close> opens its session with \<open>get_db\<close>, a name the module
  does not bind: the call raises NameError before its \<open>try\<close> block and changes
  nothing, so no vector entry is deleted, the document is not reset and nothing is
  queued.
\<close>

theorem reprocess_raises_name_error:
  "reprocess_document background_processor_globals env w i =
     \<lparr>world_after = w, committed = [],
      raised = Some (NameError ''name get_db is not defined'')\<rparr>"
  by (simp add: reprocess_document_def async_with_def background_processor_globals_def)

lemma reprocess_document_entered:
  assumes "async_with g ''get_db'' = Inr ()" "documents w i = Some d"
  shows "documents (world_after (reprocess_document g env w i)) i =
          Some (d\<lparr>status := UPLOADED, extracted_text := None, page_count := None,
                  analyzed_at := None, error_message := None\<rparr>)"
    and "map_option analysis_result (documents (world_after (reprocess_document g env w i)) i)
          = Some (analysis_result d)"
    and "processing_queue (world_after (reprocess_document g env w i)) =
          processing_queue w @ [\<lparr>job_document_id = i, job_priority = 1, queued_at = clock env\<rparr>]"
    and "\<exists>c. vector_collections (world_after (reprocess_document g env w i)) (project_id d) = Some c
          \<and> (\<forall>e\<in>set c. map_of (entry_metadata e) ''document_id'' \<noteq> Some (PyInt i))"
  using assms
  by (auto simp: reprocess_document_def delete_document_embeddings_def
      get_or_create_collection_def collection_delete_where_def queue_document_for_processing_def
      Let_def split: option.splits)

section \<open>Properties of retrieval\<close>

lemma similarity_is_max: "similarity_of_distance d = max 0 (1 - d)"
  by (simp add: similarity_of_distance_def max_def)

lemma validates_tuple:
  "validates v (t, m, d) =
     (case v (case map_of (the m) ''document_id'' of Some x \<Rightarrow> x | None \<Rightarrow> PyInt 0) of
        Inr n \<Rightarrow> True | Inl e \<Rightarrow> False)"
  by (simp add: validates_def)

lemma context_loop_ok:
  "list_all (validates v) (filter truthy_entry es) \<Longrightarrow>
   context_loop v es = Inr (map (spec_context_chunk v) (filter truthy_entry es))"
proof (induction es)
  case Nil
  then show ?case by simp
next
  case (Cons x es)
  obtain t m d where x: "x = (t, m, d)" by (cases x)
  show ?case
  proof (cases "truthy_entry (t, m, d)")
    case False
    then show ?thesis
      using Cons by (simp add: x)
  next
    case True
    have val: "validates v (t, m, d)"
      and rest: "list_all (validates v) (filter truthy_entry es)"
      using Cons.prems True by (simp_all add: x)
    obtain n where n:
      "v (case map_of (the m) ''document_id'' of Some x \<Rightarrow> x | None \<Rightarrow> PyInt 0) = Inr n"
      using val by (auto simp: validates_tuple split: sum.splits)
    show ?thesis
      using True n Cons.IH [OF rest]
      by (simp add: x spec_context_chunk_def similarity_is_max)
  qed
qed

lemma context_loop_raises:
  "\<not> list_all (validates v) (filter truthy_entry es) \<Longrightarrow> \<exists>e. context_loop v es = Inl e"
proof (induction es)
  case Nil
  then show ?case by simp
next
  case (Cons x es)
  obtain t m d where x: "x = (t, m, d)" by (cases x)
  show ?case
  proof (cases "truthy_entry (t, m, d)")
    case False
    then show ?thesis
      using Cons by (simp add: x)
  next
    case True
    show ?thesis
    proof (cases "v (case map_of (the m) ''document_id'' of Some x \<Rightarrow> x | None \<Rightarrow> PyInt 0)")
      case (Inl e)
      then show ?thesis
        using True by (simp add: x)
    next
      case (Inr n)
      then have "validates v (t, m, d)"
        by (simp add: validates_tuple)
      then have "\<not> list_all (validates v) (filter truthy_entry es)"
        using Cons.prems True by (simp add: x)
      then obtain e where "context_loop v es = Inl e"
        using Cons.IH by blast
      then show ?thesis
        using True Inr by (simp add: x)
    qed
  qed
qed

lemma retrieve_context_result:
  assumes "sr_documents res = docs # ds" "sr_metadatas res = mds # ms"
    "sr_distances res = dists # dd"
  shows "retrieve_context v res =
     (if list_all (validates v) (filter truthy_entry (zip docs (zip mds dists)))
      then map (spec_context_chunk v) (filter truthy_entry (zip docs (zip mds dists)))
      else [])"
proof (cases "list_all (validates v) (filter truthy_entry (zip docs (zip mds dists)))")
  case True
  then show ?thesis
    using assms context_loop_ok [OF True]
    by (simp add: retrieve_context_def retrieve_context_body_def first_list_def)
next
  case False
  then obtain e where "context_loop v (zip docs (zip mds dists)) = Inl e"
    using context_loop_raises by blast
  then show ?thesis
    using assms False
    by (simp add: retrieve_context_def retrieve_context_body_def first_list_def)
qed

text \<open>
  C7.  \<open>retrieve_context\<close> takes the first list of documents, metadatas and distances
  of the search result, drops every entry whose text or metadata is empty or missing
  without touching it further, and turns each remaining entry into a context chunk
  whose similarity score is \<open>max(0, 1 - distance)\<close>.  Validation of a kept entry by
  the \<open>ChatContextChunk\<close> model is the only step that can raise; the handler then
  returns the empty list.
\<close>

theorem retrieval_scores:
  assumes "sr_documents res = docs # ds" "sr_metadatas res = mds # ms"
    "sr_distances res = dists # dd"
  shows "retrieve_context v res =
     (if list_all (validates v) (filter truthy_entry (zip docs (zip mds dists)))
      then map (spec_context_chunk v) (filter truthy_entry (zip docs (zip mds dists)))
      else [])"
  using assms by (rule retrieve_context_result)

theorem retrieval_scores_witness:
  "retrieve_context sample_validate_int sample_results =
     [\<lparr>ctx_document_id = 3, ctx_chunk_text = ''alpha'', similarity_score = 3 / 4,
       ctx_metadata = [(''document_id'', PyInt 3)]\<rparr>,
      \<lparr>ctx_document_id = 4, ctx_chunk_text = ''gamma'', similarity_score = 0,
       ctx_metadata = [(''document_id'', PyInt 4)]\<rparr>]"
  using retrieval_scores [of sample_results
      "[Some ''alpha'', Some [], None, Some ''beta'', Some ''gamma'']" "[]"
      "[Some [(''document_id'', PyInt 3)], Some [(''document_id'', PyInt 3)],
        Some [(''document_id'', PyInt 3)], None, Some [(''document_id'', PyInt 4)]]" "[]"
      "[1 / 4, 0, 0, 0, 3 / 2]" "[]" sample_validate_int]
  by (simp add: sample_results_def truthy_entry_def validates_def spec_context_chunk_def
      sample_validate_int_def)

section \<open>The example scenario of the chunker\<close>

lemma plain_takeWhile [simp]:
  assumes "plain T"
  shows "takeWhile is_space T = []" "takeWhile is_punct T = []" "takeWhile is_digit T = []"
    "takeWhile (\<lambda>c. c = CHR ''.'') T = []"
    "dropWhile is_space T = T" "dropWhile is_punct T = T"
  using assms dot_punct by (cases T; auto simp: plain_def)+

lemma plain_scans [simp]:
  assumes "plain T"
  shows "re_sub rx_ws_run r T = T" "re_sub rx_dots r T = T"
    "re_split rx_sentence_end T = [T]" "re_search_end rx_boundary T = None"
proof -
  show "re_sub rx_ws_run r T = T"
    using assms by (intro re_sub_no_match rx_ws_run_None) (auto simp: plain_def)
  show "re_sub rx_dots r T = T"
    using assms dot_punct by (intro re_sub_no_match rx_dots_None) (auto simp: plain_def)
  show "re_split rx_sentence_end T = [T]"
    using assms by (intro re_split_no_match rx_sentence_end_None) (auto simp: plain_def)
  show "re_search_end rx_boundary T = None"
    using assms by (intro re_search_end_no_match rx_boundary_None) (auto simp: plain_def)
qed

lemma ws_step:
  assumes "plain T"
  shows "re_sub rx_ws_run '' '' (intro_prefix @ T) = intro_prefix @ T"
  using assms
  by (simp add: intro_prefix_def rx_ws_run_def rx_plus_def is_space_def)

lemma example_no_newline:
  assumes "plain T"
  shows "NL \<notin> set (intro_prefix @ T)"
  using assms NL_space by (auto simp: intro_prefix_def NL_def plain_def)

lemma example_strip:
  assumes "plain T" "T \<noteq> []"
  shows "strip (intro_prefix @ T) = intro_prefix @ T"
proof (rule strip_id)
  show "intro_prefix @ T \<noteq> []" using assms by simp
  show "\<not> is_space (hd (intro_prefix @ T))"
    by (simp add: intro_prefix_def is_space_def)
  have "last T \<in> set T" using assms by simp
  then show "\<not> is_space (last (intro_prefix @ T))"
    using assms by (auto simp: plain_def)
qed

lemma example_preprocess:
  assumes "plain T" "T \<noteq> []"
  shows "preprocess_text (intro_prefix @ T) = intro_prefix @ T"
proof -
  have 2: "re_sub rx_blank_line [NL, NL] (intro_prefix @ T) = intro_prefix @ T"
    using example_no_newline [OF assms(1)]
    by (intro re_sub_no_match rx_blank_line_None) auto
  have 3: "sub_page_numbers True (intro_prefix @ T) = intro_prefix @ T"
    using example_no_newline [OF assms(1)]
    by (intro sub_page_numbers_True) (simp_all add: intro_prefix_def is_digit_def)
  have 4: "re_sub rx_dots ''...'' (intro_prefix @ T) = intro_prefix @ T"
    using assms(1) by (simp add: intro_prefix_def rx_dots_def)
  show ?thesis
    by (simp add: preprocess_text_def ws_step [OF assms(1)] 2 3 4 example_strip [OF assms])
qed

lemma example_paragraphs:
  assumes "plain T" "T \<noteq> []"
  shows "split_into_paragraphs (intro_prefix @ T) = [intro_prefix @ T]"
proof -
  have "re_split rx_blank_line (intro_prefix @ T) = [intro_prefix @ T]"
    using example_no_newline [OF assms(1)]
    by (intro re_split_no_match rx_blank_line_None) auto
  moreover have "20 < length (intro_prefix @ T)"
    by (simp add: intro_prefix_def)
  ultimately show ?thesis
    using assms by (simp add: split_into_paragraphs_def example_strip)
qed

lemma example_sentences:
  assumes "plain T" "10 < length T"
  shows "split_into_sentences (intro_prefix @ T) =
     [''Introduzione'', ''Introduzione'', ''Introduzione'', ''Introduzione'', ''Introduzione'', T]"
proof -
  have "re_split rx_sentence_end (intro_prefix @ T) =
     [''Introduzione'', ''Introduzione'', ''Introduzione'', ''Introduzione'', ''Introduzione'', T]"
    using assms(1)
    by (simp add: intro_prefix_def rx_sentence_end_def rx_plus_def rx_then_def is_punct_def
        is_space_def extend_piece_def)
  moreover have "strip ''Introduzione'' = ''Introduzione''"
    by (rule strip_id) (simp_all add: is_space_def)
  moreover have "T \<noteq> []"
    using assms(2) by auto
  ultimately show ?thesis
    using assms by (simp add: split_into_sentences_def strip_plain)
qed

lemma intro_joined_strip: "strip intro_joined = intro_joined"
  by (rule strip_id) (simp_all add: intro_joined_def is_space_def)

lemma text_c_new_TextChunk [simp]: "text_c (new_TextChunk t ty s e md) = t"
  by (simp add: new_TextChunk_def)

lemma intro_joined_length: "length intro_joined = 64"
  by (simp add: intro_joined_def)

lemma example_loop:
  assumes "length T = 1500"
  shows "sentence_loop text_chunker ty d f [] [] start
      [''Introduzione'', ''Introduzione'', ''Introduzione'', ''Introduzione'', ''Introduzione'', T]
     = ([new_TextChunk intro_joined ty start (start + 64) (chunk_metadata d f [])], T,
        start + 64)"
proof -
  have cs: "chunk_size text_chunker = 1000"
    by (simp add: text_chunker_def)
  have 1: "sentence_loop text_chunker ty d f [] [] start
      [''Introduzione'', ''Introduzione'', ''Introduzione'', ''Introduzione'', ''Introduzione'', T]
     = sentence_loop text_chunker ty d f [] intro_joined start [T]"
    by (simp add: cs intro_joined_def)
  have 2: "sentence_loop text_chunker ty d f [] intro_joined start [T]
     = ([new_TextChunk intro_joined ty start (start + 64) (chunk_metadata d f [])], T,
        start + 64)"
    using assms
    by (simp add: cs intro_joined_length intro_joined_strip Let_def)
       (simp add: intro_joined_def)
  show ?thesis
    by (simp only: 1 2)
qed

lemma example_chunks:
  assumes "plain T" "length T = 1500"
  shows "map text_c (create_chunks_from_paragraph text_chunker (intro_prefix @ T) start ty d f)
     = [intro_joined, T]"
proof -
  have len: "10 < length T" "T \<noteq> []"
    using assms(2) by auto
  have big: "\<not> int (length (intro_prefix @ T)) \<le> chunk_size text_chunker"
    using assms(2) by (simp add: text_chunker_def)
  have m: "min_chunk_size text_chunker \<le> int (length (strip T))"
    using assms by (simp add: strip_plain text_chunker_def)
  show ?thesis
    unfolding create_chunks_from_paragraph_def
    using big m len(2)
    by (simp add: example_sentences [OF assms(1) len(1)] example_loop [OF assms(2)]
        strip_plain [OF assms(1)] del: sentence_loop.simps)
qed

lemma example_overlapped:
  assumes "plain T" "length T = 1500"
  shows "map text_c (apply_overlap text_chunker
            (paragraph_loop text_chunker d f [] 0
              (split_into_paragraphs (preprocess_text (intro_prefix @ T)))))
         = [intro_joined, intro_joined @ '' '' @ T]"
proof -
  have ne: "T \<noteq> []" using assms(2) by auto
  let ?cs = "create_chunks_from_paragraph text_chunker (intro_prefix @ T) 0
      (detect_chunk_type (intro_prefix @ T)) d f"
  have keep: "\<not> int (length (strip (intro_prefix @ T))) < min_chunk_size text_chunker"
    using assms(2) by (simp add: example_strip [OF assms(1) ne] text_chunker_def)
  have pl: "paragraph_loop text_chunker d f [] 0
      (split_into_paragraphs (preprocess_text (intro_prefix @ T))) = ?cs"
    using keep
    by (simp add: example_preprocess [OF assms(1) ne] example_paragraphs [OF assms(1) ne])
  obtain c1 c2 where cs: "?cs = [c1, c2]" and t1: "text_c c1 = intro_joined"
    and t2: "text_c c2 = T"
    using example_chunks [OF assms, of 0 "detect_chunk_type (intro_prefix @ T)" d f]
    by (auto simp: map_eq_Cons_conv)
  have ov: "get_overlap_text intro_joined (overlap_size text_chunker) = intro_joined"
    by (simp add: get_overlap_text_def intro_joined_length text_chunker_def)
  have nz: "intro_joined \<noteq> []"
    by (simp add: intro_joined_def)
  show ?thesis
    using nz
    by (simp add: pl cs apply_overlap_def overlap_chunk_def t1 t2 ov Let_def
        upt_rec [of 0] upt_rec [of 1] nth_Cons')
qed

lemma validate_texts:
  "map text_c (validate_and_cleanup_chunks self cs) =
     map (cleanup_text self)
       (filter (\<lambda>t. \<not> int (length (strip t)) < min_chunk_size self) (map text_c cs))"
  by (induction cs)
     (simp_all add: validate_and_cleanup_chunks_def cleanup_chunk_def cleanup_text_def Let_def)

lemma example_chunk_text:
  assumes "plain T" "length T = 1500"
  shows "map text_c (chunk_text text_chunker (PyStr (intro_prefix @ T)) d f)
         = [intro_joined @ '' '' @ T]"
proof -
  have ne: "T \<noteq> []" using assms(2) by auto
  have s2: "strip (intro_joined @ '' '' @ T) = intro_joined @ '' '' @ T"
  proof (rule strip_id)
    show "intro_joined @ '' '' @ T \<noteq> []" by simp
    show "\<not> is_space (hd (intro_joined @ '' '' @ T))"
      by (simp add: intro_joined_def is_space_def)
    have "last T \<in> set T" using ne by simp
    then show "\<not> is_space (last (intro_joined @ '' '' @ T))"
      using assms(1) ne by (auto simp: plain_def)
  qed
  have mn: "min_chunk_size text_chunker = 100" "max_chunk_size text_chunker = 2000"
    by (simp_all add: text_chunker_def)
  have s2': "strip (intro_joined @ CHR '' '' # T) = intro_joined @ CHR '' '' # T"
    using s2 by simp
  show ?thesis
    using assms(2)
    by (simp add: chunk_text_def chunk_text_body_def re_sub_arg_def Let_def validate_texts
        example_overlapped [OF assms] intro_joined_strip intro_joined_length s2' cleanup_text_def
        mn)
qed

lemma plain_replicate_A: "plain (replicate n (CHR ''A''))"
  by (simp add: plain_def is_space_def is_punct_def is_digit_def)

lemma intro_prefix_concat: "concat (replicate 5 ''Introduzione. '') = intro_prefix"
  by (simp add: intro_prefix_def numeral_eq_Suc)

text \<open>
  C1, as the code has it.  For the text made of five times \<open>Introduzione. \<close> and
  1500 letters \<open>A\<close>, with the default sizes, \<open>chunk_text\<close> returns exactly one chunk.
  The split of the only paragraph gives two chunks, the five words joined by spaces
  (64 characters) and the 1500 letters; overlap puts the whole first text, which is its
  last at-most-200 characters, and a space in front of the second; validation then
  drops the first chunk, which is shorter than \<open>min_chunk_size\<close>.
\<close>

theorem example_scenario_chunks:
  "map text_c (chunk_text text_chunker
       (PyStr (concat (replicate 5 ''Introduzione. '') @ replicate 1500 (CHR ''A''))) d f)
     = [intro_joined @ '' '' @ replicate 1500 (CHR ''A'')]
   \<and> map text_c (apply_overlap text_chunker
         (paragraph_loop text_chunker d f [] 0
           (split_into_paragraphs (preprocess_text
             (concat (replicate 5 ''Introduzione. '') @ replicate 1500 (CHR ''A''))))))
     = [intro_joined, intro_joined @ '' '' @ replicate 1500 (CHR ''A'')]
   \<and> get_overlap_text intro_joined (overlap_size text_chunker) = intro_joined
   \<and> length intro_joined = 64"
proof -
  have p: "plain (replicate 1500 (CHR ''A''))"
    by (rule plain_replicate_A)
  have l: "length (replicate 1500 (CHR ''A'')) = 1500"
    by simp
  have ov: "get_overlap_text intro_joined (overlap_size text_chunker) = intro_joined"
    by (simp add: get_overlap_text_def intro_joined_length text_chunker_def)
  show ?thesis
    unfolding intro_prefix_concat
    using example_chunk_text [OF p l, of d f] example_overlapped [OF p l, of d f] ov
      intro_joined_length
    by simp
qed

text \<open>
  The scenario does not yield two chunks.
\<close>

theorem example_scenario_counterexample:
  "\<not> 2 \<le> length (chunk_text text_chunker
       (PyStr (concat (replicate 5 ''Introduzione. '') @ replicate 1500 (CHR ''A'')))
       1 ''a.pdf'')"
proof -
  have "length (map text_c (chunk_text text_chunker
       (PyStr (intro_prefix @ replicate 1500 (CHR ''A''))) 1 ''a.pdf'')) = 1"
    by (subst example_chunk_text [OF plain_replicate_A]) simp_all
  then show ?thesis
    unfolding intro_prefix_concat by simp
qed

section \<open>Overlap between the chunks of a paragraph\<close>




lemma has_boundary_append:
  "has_boundary (xs @ ys) \<longleftrightarrow>
     has_boundary xs \<or> has_boundary ys \<or>
     (xs \<noteq> [] \<and> ys \<noteq> [] \<and> is_punct (last xs) \<and> is_space (hd ys))"
proof (induction xs rule: has_boundary.induct)
  case (1 a b s)
  then show ?case by auto
next
  case (2 a)
  then show ?case by (cases ys) auto
next
  case 3
  then show ?case by simp
qed


lemma has_boundary_take: "\<not> has_boundary s \<Longrightarrow> \<not> has_boundary (take k s)"
  using has_boundary_append [of "take k s" "drop k s"] by simp


























subsection \<open>An example with the default sizes\<close>
































text \<open>
  With \<open>overlap_size = 0\<close> the slice \<open>text[-0:]\<close> is the whole text, so the overlap is
  the whole text of the previous chunk and not its last 0 characters.
\<close>

lemma zero_overlap_size_takes_whole_text:
  "get_overlap_text overlap_example_first 0 = overlap_example_first"
proof -
  have "c \<in> set overlap_example_first \<Longrightarrow> rx_boundary (c # cs) = None" for c cs
    by (intro rx_boundary_None) (auto simp: overlap_example_first_def is_punct_def)
  then have "re_search_end rx_boundary overlap_example_first = None"
    by (rule re_search_end_no_match)
  moreover have "length overlap_example_first = 500"
    by (simp add: overlap_example_first_def)
  ultimately show ?thesis
    by (simp add: get_overlap_text_def py_slice_from_def)
qed

end
